theory Spec2Isabelle
  imports Main
begin

section \<open>Data model\<close>

text \<open>
  The publisher of \<^verbatim>\<open>ipnipublisher/publisher/publisher.go\<close> builds, signs and stores
  IPNI advertisements. Byte strings are \<open>string\<close>s (a \<open>char\<close> is a byte), so the
  conversion \<^verbatim>\<open>[]byte(contextID)\<close> is the identity. Peer IDs and multiaddrs are opaque
  values of libp2p; each is modelled by the string its \<^verbatim>\<open>String()\<close> method yields.
\<close>

type_synonym bytes = string

datatype peerID = PeerID (peer_String: string)

datatype multiaddr = Multiaddr (addr_String: string)

type_synonym multihash = bytes

type_synonym privKey = bytes

text \<open>
  An \<^verbatim>\<open>ipld.Link\<close> is a CID. \<^verbatim>\<open>schema.NoEntries\<close> is the well-known link that
  stands for an empty entries list. A Go link that may be \<^verbatim>\<open>nil\<close> is a \<open>link option\<close>.
\<close>

datatype link = NoEntries | Cid nat

text \<open>
  Modelled from the spec: \<^verbatim>\<open>metadata.Metadata\<close> (go-libipni, not under src/) is "an
  opaque, comparable (equality-testable) blob" whose equality "is byte-exact". The value
  is the ordered list of its encoded protocols. \<open>zeroMetadata\<close> is the Go zero value
  \<^verbatim>\<open>metadata.Metadata{}\<close>, which a lookup hands back together with its error;
  \<open>Default_New\<close> is \<^verbatim>\<open>metadata.Default.New()\<close>, the "valid-but-empty Metadata value".
  Both carry no protocol.
\<close>

datatype metadata = Md (protocols: "bytes list")

definition Equal :: "metadata \<Rightarrow> metadata \<Rightarrow> bool" where
  "Equal m other = (protocols m = protocols other)"

definition zeroMetadata :: metadata where
  "zeroMetadata = Md []"

definition Default_New :: metadata where
  "Default_New = Md []"

text \<open>\<^verbatim>\<open>schema.Advertisement\<close>, with the fields the publisher sets.\<close>

record advertisement =
  PreviousID :: "link option"
  Provider :: string
  Addresses :: "string list"
  Signature :: bytes
  Entries :: "link option"
  ContextID :: bytes
  Metadata :: bytes
  IsRm :: bool

text \<open>\<^verbatim>\<open>head.SignedHead\<close>: the link of the latest advertisement, the topic, a signature.\<close>

record signedHead =
  Head :: link
  Topic :: string
  Sig :: bytes

record AddrInfo =
  ID :: peerID
  Addrs :: "multiaddr list"

subsection \<open>Errors\<close>

text \<open>
  Every operation of \<^verbatim>\<open>store.PublisherStore\<close> the publisher calls. A store failure
  other than not-found names the operation that failed.
\<close>

datatype storeOp =
    OpChunkLinkFor | OpPutEntries | OpPutChunkLink | OpMetadataFor | OpPutMetadata
  | OpDeleteChunkLink | OpDeleteMetadata | OpHead | OpPutAdvert | OpPutHead

text \<open>
  \<open>Errorf_s\<close> is \<^verbatim>\<open>fmt.Errorf("...: %s", err)\<close>: the cause is only printed, its identity
  is lost. \<open>Errorf_w\<close> is \<^verbatim>\<open>fmt.Errorf("...: %w", err)\<close>: the cause stays reachable by
  \<^verbatim>\<open>errors.Is\<close>.
\<close>

datatype error =
    NotFound
  | StoreFailure storeOp
  | ErrAlreadyAdvertised
  | ErrContextIDNotFound
  | MarshalFailure
  | SignFailure
  | ValidateFailure
  | SignedHeadFailure
  | Errorf_s string error
  | Errorf_w string error

fun errorsIs :: "error \<Rightarrow> error \<Rightarrow> bool" where
  "errorsIs (Errorf_w msg e) target = (Errorf_w msg e = target \<or> errorsIs e target)"
| "errorsIs e target = (e = target)"

definition IsNotFound :: "error \<Rightarrow> bool" where
  "IsNotFound err = errorsIs err NotFound"

text \<open>
  The pattern \<^verbatim>\<open>if err != nil { if !store.IsNotFound(err) { return ... } }\<close>: the error
  that makes the caller return, if any.
\<close>

definition fatalErr :: "error option \<Rightarrow> error option" where
  "fatalErr err =
     (case err of
        None \<Rightarrow> None
      | Some e \<Rightarrow> if \<not> IsNotFound e then Some e else None)"

section \<open>The environment of one call\<close>

text \<open>
  The functions of go-libipni and libp2p the publisher calls are parameters: the binary
  encoding of metadata, the signature of an advertisement, its validation, the signature
  of a head, and the content-derived links of an entries list and of an advertisement.
  \<open>None\<close> (or \<open>False\<close> for \<open>validate\<close>) is the call returning an error.
  \<open>fails\<close> says which store operations fail, with an error other than not-found, in
  this call.
\<close>

record extern =
  marshalBinary :: "metadata \<Rightarrow> bytes option"
  sign :: "privKey \<Rightarrow> advertisement \<Rightarrow> bytes option"
  validate :: "advertisement \<Rightarrow> bool"
  newSignedHead :: "link \<Rightarrow> string \<Rightarrow> privKey \<Rightarrow> bytes option"
  entriesLink :: "multihash list \<Rightarrow> link option"
  advertLink :: "advertisement \<Rightarrow> link"
  fails :: "storeOp \<Rightarrow> bool"

text \<open>
  \<^verbatim>\<open>IPNIPublisher\<close> with its options. The store is the state passed to every function
  below. \<open>sender\<close> is \<open>None\<close> when no announce URL is configured; otherwise it is the
  result of \<^verbatim>\<open>announce.Send\<close> through it: \<open>True\<close> when the send returns an error.
\<close>

record IPNIPublisher =
  topic :: string
  pubHTTPAnnounceAddrs :: "multiaddr list"
  sender :: "(link \<Rightarrow> multiaddr list \<Rightarrow> bool) option"
  key :: privKey

section \<open>The store\<close>

text \<open>
  Modelled from the spec: \<^verbatim>\<open>store.PublisherStore\<close> (package ipnipublisher/store, not
  under src/) is "a key-value store with get/put/delete by key, returning a not-found
  signal": ChunkStore maps (provider, contextID) to a chunk link and materialises digest
  lists, MetadataStore maps (provider, contextID) to metadata, ChainStore holds the
  advertisements by link and the single head. An operation that fails leaves the store as
  it was. \<open>announces\<close> is not part of the store: it records every \<^verbatim>\<open>announce.Send\<close>
  the publisher makes.
\<close>

record world =
  chunkLinks :: "peerID \<times> bytes \<rightharpoonup> link"
  metadatas :: "peerID \<times> bytes \<rightharpoonup> metadata"
  entries :: "link \<rightharpoonup> multihash list"
  adverts :: "link \<rightharpoonup> advertisement"
  head :: "signedHead option"
  announces :: "(link \<times> multiaddr list) list"

text \<open>Lookups return the Go pair (value, err): the zero value comes with every error.\<close>

definition ChunkLinkForProviderAndContextID ::
  "extern \<Rightarrow> world \<Rightarrow> peerID \<Rightarrow> bytes \<Rightarrow> link option \<times> error option" where
  "ChunkLinkForProviderAndContextID x w p contextID =
     (if fails x OpChunkLinkFor then (None, Some (StoreFailure OpChunkLinkFor))
      else case chunkLinks w (p, contextID) of
             None \<Rightarrow> (None, Some NotFound)
           | Some l \<Rightarrow> (Some l, None))"

definition MetadataForProviderAndContextID ::
  "extern \<Rightarrow> world \<Rightarrow> peerID \<Rightarrow> bytes \<Rightarrow> metadata \<times> error option" where
  "MetadataForProviderAndContextID x w p contextID =
     (if fails x OpMetadataFor then (zeroMetadata, Some (StoreFailure OpMetadataFor))
      else case metadatas w (p, contextID) of
             None \<Rightarrow> (zeroMetadata, Some NotFound)
           | Some m \<Rightarrow> (m, None))"

definition store_Head :: "extern \<Rightarrow> world \<Rightarrow> signedHead option \<times> error option" where
  "store_Head x w =
     (if fails x OpHead then (None, Some (StoreFailure OpHead))
      else case head w of
             None \<Rightarrow> (None, Some NotFound)
           | Some h \<Rightarrow> (Some h, None))"

text \<open>
  \<open>PutEntries\<close> materialises the digests: it stores them under their link, or stores
  nothing and returns no link (and no error) when the list yields none.
\<close>

definition PutEntries ::
  "extern \<Rightarrow> world \<Rightarrow> multihash list \<Rightarrow> (error + link option) \<times> world" where
  "PutEntries x w mhs =
     (if fails x OpPutEntries then (Inl (StoreFailure OpPutEntries), w)
      else case entriesLink x mhs of
             None \<Rightarrow> (Inr None, w)
           | Some l \<Rightarrow> (Inr (Some l), w\<lparr>entries := (entries w)(l \<mapsto> mhs)\<rparr>))"

definition PutChunkLinkForProviderAndContextID ::
  "extern \<Rightarrow> world \<Rightarrow> peerID \<Rightarrow> bytes \<Rightarrow> link \<Rightarrow> error option \<times> world" where
  "PutChunkLinkForProviderAndContextID x w p contextID l =
     (if fails x OpPutChunkLink then (Some (StoreFailure OpPutChunkLink), w)
      else (None, w\<lparr>chunkLinks := (chunkLinks w)((p, contextID) \<mapsto> l)\<rparr>))"

definition PutMetadataForProviderAndContextID ::
  "extern \<Rightarrow> world \<Rightarrow> peerID \<Rightarrow> bytes \<Rightarrow> metadata \<Rightarrow> error option \<times> world" where
  "PutMetadataForProviderAndContextID x w p contextID m =
     (if fails x OpPutMetadata then (Some (StoreFailure OpPutMetadata), w)
      else (None, w\<lparr>metadatas := (metadatas w)((p, contextID) \<mapsto> m)\<rparr>))"

definition DeleteChunkLinkForProviderAndContextID ::
  "extern \<Rightarrow> world \<Rightarrow> peerID \<Rightarrow> bytes \<Rightarrow> error option \<times> world" where
  "DeleteChunkLinkForProviderAndContextID x w p contextID =
     (if fails x OpDeleteChunkLink then (Some (StoreFailure OpDeleteChunkLink), w)
      else (None, w\<lparr>chunkLinks := (chunkLinks w)((p, contextID) := None)\<rparr>))"

definition DeleteMetadataForProviderAndContextID ::
  "extern \<Rightarrow> world \<Rightarrow> peerID \<Rightarrow> bytes \<Rightarrow> error option \<times> world" where
  "DeleteMetadataForProviderAndContextID x w p contextID =
     (if fails x OpDeleteMetadata then (Some (StoreFailure OpDeleteMetadata), w)
      else (None, w\<lparr>metadatas := (metadatas w)((p, contextID) := None)\<rparr>))"

definition PutAdvert :: "extern \<Rightarrow> world \<Rightarrow> advertisement \<Rightarrow> (error + link) \<times> world" where
  "PutAdvert x w adv =
     (if fails x OpPutAdvert then (Inl (StoreFailure OpPutAdvert), w)
      else (Inr (advertLink x adv), w\<lparr>adverts := (adverts w)(advertLink x adv \<mapsto> adv)\<rparr>))"

definition PutHead :: "extern \<Rightarrow> world \<Rightarrow> signedHead \<Rightarrow> error option \<times> world" where
  "PutHead x w h =
     (if fails x OpPutHead then (Some (StoreFailure OpPutHead), w)
      else (None, w\<lparr>head := Some h\<rparr>))"

section \<open>The publisher\<close>

text \<open>
  \<^verbatim>\<open>publishLocal\<close> (lines 229-251): validate, store the advertisement, build the signed
  head for its link, store the head.
\<close>

definition publishLocal ::
  "extern \<Rightarrow> IPNIPublisher \<Rightarrow> world \<Rightarrow> advertisement \<Rightarrow> (error + link) \<times> world" where
  "publishLocal x p w adv =
     (if \<not> validate x adv then (Inl ValidateFailure, w)
      else case PutAdvert x w adv of
             (Inl err, w1) \<Rightarrow> (Inl err, w1)
           | (Inr lnk, w1) \<Rightarrow>
               (case newSignedHead x lnk (topic p) (key p) of
                  None \<Rightarrow>
                    (Inl (Errorf_w ''failed to generate signed head for the latest advertisement''
                            SignedHeadFailure), w1)
                | Some sg \<Rightarrow>
                    (case PutHead x w1 \<lparr>Head = lnk, Topic = topic p, Sig = sg\<rparr> of
                       (Some err, w2) \<Rightarrow>
                         (Inl (Errorf_w ''failed to update reference to latest advertisement'' err),
                          w2)
                     | (None, w2) \<Rightarrow> (Inr lnk, w2))))"

text \<open>
  \<^verbatim>\<open>publish\<close> (lines 214-227): commit locally, then announce when a sender is
  configured. The error of the send is logged and dropped.
\<close>

definition publish ::
  "extern \<Rightarrow> IPNIPublisher \<Rightarrow> world \<Rightarrow> advertisement \<Rightarrow> (error + link) \<times> world" where
  "publish x p w adv =
     (case publishLocal x p w adv of
        (Inl err, w1) \<Rightarrow> (Inl (Errorf_w ''failed to publish advertisement locally'' err), w1)
      | (Inr lnk, w1) \<Rightarrow>
          (case sender p of
             None \<Rightarrow> (Inr lnk, w1)
           | Some send \<Rightarrow>
               (let err = send lnk (pubHTTPAnnounceAddrs p) in
                (Inr lnk, w1\<lparr>announces := announces w1 @ [(lnk, pubHTTPAnnounceAddrs p)]\<rparr>))))"

text \<open>
  The add path of \<^verbatim>\<open>publishAdvForIndex\<close> (lines 97-143), entered with the chunk link the
  first lookup found. It yields the chunk link to advertise.
\<close>

definition addPath ::
  "extern \<Rightarrow> world \<Rightarrow> peerID \<Rightarrow> bytes \<Rightarrow> metadata \<Rightarrow> multihash list \<Rightarrow> link option
     \<Rightarrow> (error + link option) \<times> world" where
  "addPath x w peer contextID md mhs chunkLink =
     (case
        (case chunkLink of
           None \<Rightarrow>
             (case PutEntries x w mhs of
                (Inl err, w1) \<Rightarrow> (Inl (Errorf_s ''could not generate entries list'' err), w1)
              | (Inr r, w1) \<Rightarrow>
                  (let chunkLink' = (case r of None \<Rightarrow> NoEntries | Some l \<Rightarrow> l) in
                   case PutChunkLinkForProviderAndContextID x w1 peer contextID chunkLink' of
                     (Some err, w2) \<Rightarrow>
                       (Inl (Errorf_s
                          ''failed to write provider + context id to entries cid mapping'' err), w2)
                   | (None, w2) \<Rightarrow> (Inr (Some chunkLink'), w2)))
         | Some l \<Rightarrow>
             (case MetadataForProviderAndContextID x w peer contextID of
                (prevMetadata, err) \<Rightarrow>
                  (case fatalErr err of
                     Some e \<Rightarrow>
                       (Inl (Errorf_s ''could not get metadata for provider + context id'' e), w)
                   | None \<Rightarrow>
                       if Equal md prevMetadata then (Inl ErrAlreadyAdvertised, w)
                       else (Inr (Some l), w))))
      of
        (Inl err, w3) \<Rightarrow> (Inl err, w3)
      | (Inr chunkLink', w3) \<Rightarrow>
          (case PutMetadataForProviderAndContextID x w3 peer contextID md of
             (Some err, w4) \<Rightarrow>
               (Inl (Errorf_s
                  ''failed to write provider + context id to metadata mapping'' err), w4)
           | (None, w4) \<Rightarrow> (Inr chunkLink', w4)))"

text \<open>
  The removal path (lines 144-169). It yields the chunk link and the metadata to
  advertise: \<^verbatim>\<open>schema.NoEntries\<close> and \<^verbatim>\<open>metadata.Default.New()\<close>.
\<close>

definition removePath ::
  "extern \<Rightarrow> world \<Rightarrow> peerID \<Rightarrow> bytes \<Rightarrow> link option
     \<Rightarrow> (error + link option \<times> metadata) \<times> world" where
  "removePath x w peer contextID chunkLink =
     (case chunkLink of
        None \<Rightarrow> (Inl ErrContextIDNotFound, w)
      | Some l \<Rightarrow>
          (case DeleteChunkLinkForProviderAndContextID x w peer contextID of
             (Some err, w1) \<Rightarrow>
               (Inl (Errorf_s
                  ''failed to delete provider + context id to entries cid mapping'' err), w1)
           | (None, w1) \<Rightarrow>
               (case DeleteMetadataForProviderAndContextID x w1 peer contextID of
                  (Some err, w2) \<Rightarrow>
                    (Inl (Errorf_s
                       ''failed to delete provider + context id to metadata mapping'' err), w2)
                | (None, w2) \<Rightarrow> (Inr (Some NoEntries, Default_New), w2))))"

text \<open>
  The advertisement of lines 176-204: the fields of the literal, then the previous link
  from the head the lookup returned, if it returned one.
\<close>

definition newAdvertisement ::
  "peerID \<Rightarrow> multiaddr list \<Rightarrow> bytes \<Rightarrow> link option \<Rightarrow> bytes \<Rightarrow> bool \<Rightarrow> signedHead option
     \<Rightarrow> advertisement" where
  "newAdvertisement peer addrs contextID chunkLink mdBytes isRm prevHead =
     (let stringAddrs = map addr_String addrs;
          adv = \<lparr>PreviousID = None, Provider = peer_String peer, Addresses = stringAddrs,
                 Signature = [], Entries = chunkLink, ContextID = contextID,
                 Metadata = mdBytes, IsRm = isRm\<rparr>
      in case prevHead of
           None \<Rightarrow> adv
         | Some h \<Rightarrow> adv\<lparr>PreviousID := Some (Head h)\<rparr>)"

text \<open>
  The rest of \<^verbatim>\<open>publishAdvForIndex\<close> (lines 171-211): encode the metadata, look the
  head up, build the advertisement, sign it, publish it.
\<close>

definition signAndPublish ::
  "extern \<Rightarrow> IPNIPublisher \<Rightarrow> world \<Rightarrow> peerID \<Rightarrow> multiaddr list \<Rightarrow> bytes \<Rightarrow> link option
     \<Rightarrow> metadata \<Rightarrow> bool \<Rightarrow> (error + link) \<times> world" where
  "signAndPublish x p w peer addrs contextID chunkLink md isRm =
     (case marshalBinary x md of
        None \<Rightarrow> (Inl MarshalFailure, w)
      | Some mdBytes \<Rightarrow>
          (case store_Head x w of
             (prevHead, err) \<Rightarrow>
               (case fatalErr err of
                  Some e \<Rightarrow> (Inl (Errorf_s ''could not get latest advertisement'' e), w)
                | None \<Rightarrow>
                    (let adv = newAdvertisement peer addrs contextID chunkLink mdBytes isRm
                                 prevHead
                     in case sign x (key p) adv of
                          None \<Rightarrow> (Inl SignFailure, w)
                        | Some sg \<Rightarrow> publish x p w (adv\<lparr>Signature := sg\<rparr>)))))"

text \<open>\<^verbatim>\<open>publishAdvForIndex\<close> (lines 83-212).\<close>

definition publishAdvForIndex ::
  "extern \<Rightarrow> IPNIPublisher \<Rightarrow> world \<Rightarrow> peerID \<Rightarrow> multiaddr list \<Rightarrow> bytes \<Rightarrow> metadata
     \<Rightarrow> bool \<Rightarrow> multihash list \<Rightarrow> (error + link) \<times> world" where
  "publishAdvForIndex x p w peer addrs contextID md isRm mhs =
     (case ChunkLinkForProviderAndContextID x w peer contextID of
        (chunkLink, err) \<Rightarrow>
          (case fatalErr err of
             Some e \<Rightarrow>
               (Inl (Errorf_s ''could not get entries cid by provider + context id'' e), w)
           | None \<Rightarrow>
               if \<not> isRm then
                 (case addPath x w peer contextID md mhs chunkLink of
                    (Inl e, w1) \<Rightarrow> (Inl e, w1)
                  | (Inr chunkLink', w1) \<Rightarrow>
                      signAndPublish x p w1 peer addrs contextID chunkLink' md isRm)
               else
                 (case removePath x w peer contextID chunkLink of
                    (Inl e, w1) \<Rightarrow> (Inl e, w1)
                  | (Inr (chunkLink', md'), w1) \<Rightarrow>
                      signAndPublish x p w1 peer addrs contextID chunkLink' md' isRm)))"

text \<open>\<^verbatim>\<open>Publish\<close> (lines 42-48): the add entry point.\<close>

definition Publish ::
  "extern \<Rightarrow> IPNIPublisher \<Rightarrow> world \<Rightarrow> AddrInfo \<Rightarrow> string \<Rightarrow> multihash list \<Rightarrow> metadata
     \<Rightarrow> (error + link) \<times> world" where
  "Publish x p w providerInfo contextID digests meta =
     (case publishAdvForIndex x p w (ID providerInfo) (Addrs providerInfo) contextID meta
             False digests of
        (Inl err, w1) \<Rightarrow> (Inl (Errorf_w ''publishing IPNI advert'' err), w1)
      | (Inr lnk, w1) \<Rightarrow> (Inr lnk, w1))"

section \<open>Derived notions\<close>

text \<open>The head, when there is one, names an advertisement the store holds.\<close>

definition headResolves :: "world \<Rightarrow> bool" where
  "headResolves w = (case head w of None \<Rightarrow> True | Some h \<Rightarrow> adverts w (Head h) \<noteq> None)"

text \<open>
  No step of lines 171-250 fails: the encoding of the metadata, the lookup of the head, the
  signing of the advertisement built on the head \<open>prevHead\<close>, its validation and its
  store, the signing and the store of the new head.
\<close>

definition stepsSucceed ::
  "extern \<Rightarrow> IPNIPublisher \<Rightarrow> signedHead option \<Rightarrow> peerID \<Rightarrow> multiaddr list \<Rightarrow> bytes
     \<Rightarrow> link option \<Rightarrow> metadata \<Rightarrow> bool \<Rightarrow> bool" where
  "stepsSucceed x p prevHead peer addrs contextID chunkLink md isRm =
     (case marshalBinary x md of
        None \<Rightarrow> False
      | Some mdBytes \<Rightarrow>
          \<not> fails x OpHead \<and>
          (let adv = newAdvertisement peer addrs contextID chunkLink mdBytes isRm prevHead
           in case sign x (key p) adv of
                None \<Rightarrow> False
              | Some sg \<Rightarrow>
                  validate x (adv\<lparr>Signature := sg\<rparr>) \<and> \<not> fails x OpPutAdvert \<and>
                  newSignedHead x (advertLink x (adv\<lparr>Signature := sg\<rparr>)) (topic p) (key p)
                    \<noteq> None \<and>
                  \<not> fails x OpPutHead))"

section \<open>A test environment\<close>

text \<open>
  An environment in which nothing fails: metadata is encoded as the concatenation of its
  protocols, validation is the length check of go-libipni (context ID at most 64 bytes,
  metadata at most 1024), an empty digest list yields no entries link.
\<close>

definition testExtern :: extern where
  "testExtern =
     \<lparr>marshalBinary = (\<lambda>m. Some (concat (protocols m))),
      sign = (\<lambda>k a. Some (k @ ContextID a)),
      validate = (\<lambda>a. length (ContextID a) \<le> 64 \<and> length (Metadata a) \<le> 1024),
      newSignedHead = (\<lambda>l t k. Some (k @ t)),
      entriesLink = (\<lambda>mhs. if mhs = [] then None else Some (Cid (length mhs))),
      advertLink = (\<lambda>a. Cid (100 + 10 * length (Metadata a) + (if IsRm a then 1 else 0))),
      fails = (\<lambda>op. False)\<rparr>"

text \<open>The same environment with one store operation failing.\<close>

definition failing :: "storeOp \<Rightarrow> extern" where
  "failing op = testExtern\<lparr>fails := (\<lambda>op'. op' = op)\<rparr>"

definition testPublisher :: IPNIPublisher where
  "testPublisher =
     \<lparr>topic = ''/indexer/ingest/mainnet'', pubHTTPAnnounceAddrs = [Multiaddr ''/dns4/a/https''],
      sender = None, key = ''k''\<rparr>"

text \<open>A publisher whose announcements always fail.\<close>

definition announcingPublisher :: IPNIPublisher where
  "announcingPublisher = testPublisher\<lparr>sender := Some (\<lambda>l addrs. True)\<rparr>"

definition emptyWorld :: world where
  "emptyWorld =
     \<lparr>chunkLinks = Map.empty, metadatas = Map.empty, entries = Map.empty,
      adverts = Map.empty, head = None, announces = []\<rparr>"

definition providerA :: AddrInfo where
  "providerA = \<lparr>ID = PeerID ''providerA'', Addrs = [Multiaddr ''/ip4/127.0.0.1/tcp/3000'']\<rparr>"

definition metaX :: metadata where
  "metaX = Md [''x'']"

definition metaY :: metadata where
  "metaY = Md [''y'', ''y'']"

definition testAdv :: advertisement where
  "testAdv =
     \<lparr>PreviousID = None, Provider = ''providerA'', Addresses = [], Signature = ''s'',
      Entries = Some NoEntries, ContextID = ''ctx1'', Metadata = ''x'', IsRm = False\<rparr>"

definition ctx1 :: string where
  "ctx1 = ''ctx1''"

definition digests12 :: "multihash list" where
  "digests12 = [''d1'', ''d2'']"

text \<open>The advertisements and the stores of the example of the spec's section 8.\<close>

definition adv1 :: advertisement where
  "adv1 =
     \<lparr>PreviousID = None, Provider = ''providerA'', Addresses = [''/ip4/127.0.0.1/tcp/3000''],
      Signature = ''kctx1'', Entries = Some (Cid 2), ContextID = ''ctx1'', Metadata = ''x'',
      IsRm = False\<rparr>"

definition adv2 :: advertisement where
  "adv2 = adv1\<lparr>PreviousID := Some (Cid 110), Metadata := ''yy''\<rparr>"

definition adv3 :: advertisement where
  "adv3 = adv1\<lparr>PreviousID := Some (Cid 120), Entries := Some NoEntries, Metadata := [],
            IsRm := True\<rparr>"

definition testHead :: "link \<Rightarrow> signedHead" where
  "testHead l = \<lparr>Head = l, Topic = ''/indexer/ingest/mainnet'', Sig = ''k/indexer/ingest/mainnet''\<rparr>"

text \<open>After \<open>ctx1\<close> is published with \<open>metaX\<close>.\<close>

definition world1 :: world where
  "world1 =
     \<lparr>chunkLinks = [(PeerID ''providerA'', ''ctx1'') \<mapsto> Cid 2],
      metadatas = [(PeerID ''providerA'', ''ctx1'') \<mapsto> metaX],
      entries = [Cid 2 \<mapsto> [''d1'', ''d2'']],
      adverts = [Cid 110 \<mapsto> adv1],
      head = Some (testHead (Cid 110)),
      announces = []\<rparr>"

text \<open>After it is published again with \<open>metaY\<close>.\<close>

definition world2 :: world where
  "world2 =
     world1\<lparr>metadatas := [(PeerID ''providerA'', ''ctx1'') \<mapsto> metaY],
            adverts := [Cid 110 \<mapsto> adv1, Cid 120 \<mapsto> adv2],
            head := Some (testHead (Cid 120))\<rparr>"

text \<open>After it is removed.\<close>

definition world3 :: world where
  "world3 =
     world2\<lparr>chunkLinks := Map.empty, metadatas := Map.empty,
            adverts := [Cid 110 \<mapsto> adv1, Cid 120 \<mapsto> adv2, Cid 101 \<mapsto> adv3],
            head := Some (testHead (Cid 101))\<rparr>"

text \<open>
  After a first publish of \<open>ctx1\<close> whose metadata write failed: the chunk link is stored,
  the metadata is not, nothing is advertised.
\<close>

definition lostMetadataWorld :: world where
  "lostMetadataWorld =
     emptyWorld\<lparr>chunkLinks := [(PeerID ''providerA'', ''ctx1'') \<mapsto> Cid 2],
                entries := [Cid 2 \<mapsto> [''d1'', ''d2'']]\<rparr>"

text \<open>After a first publish of \<open>ctx1\<close> with \<open>metaX\<close> and no digest.\<close>

definition sentinelWorld :: world where
  "sentinelWorld =
     world1\<lparr>chunkLinks := [(PeerID ''providerA'', ''ctx1'') \<mapsto> NoEntries],
            entries := Map.empty,
            adverts := [Cid 110 \<mapsto> adv1\<lparr>Entries := Some NoEntries\<rparr>]\<rparr>"

section \<open>Sequences of calls\<close>

text \<open>
  One call on the engine: \<open>Publish\<close>, or the removal, which is \<open>publishAdvForIndex\<close>
  with \<open>isRm\<close> set. Each call has its own environment.
\<close>

record call =
  c_extern :: extern
  c_isRm :: bool
  c_provider :: AddrInfo
  c_contextID :: string
  c_digests :: "multihash list"
  c_meta :: metadata

definition perform :: "IPNIPublisher \<Rightarrow> world \<Rightarrow> call \<Rightarrow> (error + link) \<times> world" where
  "perform p w c =
     (if c_isRm c then
        publishAdvForIndex (c_extern c) p w (ID (c_provider c)) (Addrs (c_provider c))
          (c_contextID c) (c_meta c) True (c_digests c)
      else Publish (c_extern c) p w (c_provider c) (c_contextID c) (c_digests c) (c_meta c))"

text \<open>
  The calls of a list in order, each on the state the one before left. The result lists,
  for every call that succeeded, the link it returned and the state it left.
\<close>

fun performAll :: "IPNIPublisher \<Rightarrow> world \<Rightarrow> call list \<Rightarrow> (link \<times> world) list" where
  "performAll p w [] = []"
| "performAll p w (c # cs) =
     (case perform p w c of
        (Inl err, w1) \<Rightarrow> performAll p w1 cs
      | (Inr lnk, w1) \<Rightarrow> (lnk, w1) # performAll p w1 cs)"

text \<open>The state the calls of a list leave, whether they succeed or fail.\<close>

fun stateAfter :: "IPNIPublisher \<Rightarrow> world \<Rightarrow> call list \<Rightarrow> world" where
  "stateAfter p w [] = w"
| "stateAfter p w (c # cs) = stateAfter p (snd (perform p w c)) cs"

text \<open>
  A chain: the advertisement stored under each link has the link before it as its
  previous link; the first has \<open>prev\<close>.
\<close>

fun chained :: "link option \<Rightarrow> (link \<times> world) list \<Rightarrow> bool" where
  "chained prev [] = True"
| "chained prev ((lnk, w) # rs) =
     ((case adverts w lnk of None \<Rightarrow> False | Some adv \<Rightarrow> PreviousID adv = prev)
      \<and> chained (Some lnk) rs)"

definition testCall :: "bool \<Rightarrow> multihash list \<Rightarrow> metadata \<Rightarrow> call" where
  "testCall rm ds m =
     \<lparr>c_extern = testExtern, c_isRm = rm, c_provider = providerA, c_contextID = ctx1,
      c_digests = ds, c_meta = m\<rparr>"

text \<open>The four calls of the example: publish, publish again, republish, remove.\<close>

definition testCalls :: "call list" where
  "testCalls =
     [testCall False digests12 metaX, testCall False digests12 metaX,
      testCall False digests12 metaY, testCall True [] metaX]"

section \<open>The commit step\<close>

lemma publishLocal_unfold:
  "publishLocal x p w adv =
     (if \<not> validate x adv then (Inl ValidateFailure, w)
      else if fails x OpPutAdvert then (Inl (StoreFailure OpPutAdvert), w)
      else case newSignedHead x (advertLink x adv) (topic p) (key p) of
             None \<Rightarrow>
               (Inl (Errorf_w ''failed to generate signed head for the latest advertisement''
                       SignedHeadFailure),
                w\<lparr>adverts := (adverts w)(advertLink x adv \<mapsto> adv)\<rparr>)
           | Some sg \<Rightarrow>
               if fails x OpPutHead then
                 (Inl (Errorf_w ''failed to update reference to latest advertisement''
                         (StoreFailure OpPutHead)),
                  w\<lparr>adverts := (adverts w)(advertLink x adv \<mapsto> adv)\<rparr>)
               else
                 (Inr (advertLink x adv),
                  w\<lparr>adverts := (adverts w)(advertLink x adv \<mapsto> adv),
                    head := Some \<lparr>Head = advertLink x adv, Topic = topic p, Sig = sg\<rparr>\<rparr>))"
  by (simp add: publishLocal_def PutAdvert_def PutHead_def split: option.splits)

text \<open>
  C2. Whatever \<open>publishLocal\<close> returns: when validation, the store of the
  advertisement, the signing of the head or the store of the head fails, the call returns
  an error and the head is the one it was; every error return leaves the head as it was;
  a head that changed names the advertisement just stored, under the link returned; and a
  head that resolved before the call resolves after the advertisement is stored and at
  the end of the call.
\<close>

theorem publishLocal_commit_order:
  assumes "publishLocal x p w adv = (r, w')"
  shows "(\<not> validate x adv \<or> fails x OpPutAdvert
            \<or> newSignedHead x (advertLink x adv) (topic p) (key p) = None
            \<or> fails x OpPutHead
          \<longrightarrow> (\<exists>e. r = Inl e) \<and> head w' = head w)
       \<and> (\<forall>e. r = Inl e \<longrightarrow> head w' = head w)
       \<and> (head w' \<noteq> head w \<longrightarrow>
            (\<exists>h. head w' = Some h \<and> r = Inr (Head h) \<and> adverts w' (Head h) = Some adv))
       \<and> (headResolves w \<longrightarrow> headResolves (snd (PutAdvert x w adv)) \<and> headResolves w')"
  using assms
  by (auto simp: publishLocal_unfold headResolves_def PutAdvert_def
           split: if_splits option.splits)

text \<open>
  In the test environment with the store of the head failing, the advertisement is stored,
  the call returns the wrapped store failure and the head stays absent.
\<close>

theorem publishLocal_commit_order_witness:
  "publishLocal (failing OpPutHead) testPublisher emptyWorld testAdv
     = (Inl (Errorf_w ''failed to update reference to latest advertisement''
               (StoreFailure OpPutHead)),
        emptyWorld\<lparr>adverts := [Cid 110 \<mapsto> testAdv]\<rparr>)
   \<and> fails (failing OpPutHead) OpPutHead
   \<and> headResolves emptyWorld
   \<and> head (emptyWorld\<lparr>adverts := [Cid 110 \<mapsto> testAdv]\<rparr>) = head emptyWorld
   \<and> headResolves (emptyWorld\<lparr>adverts := [Cid 110 \<mapsto> testAdv]\<rparr>)"
proof -
  have run: "publishLocal (failing OpPutHead) testPublisher emptyWorld testAdv
     = (Inl (Errorf_w ''failed to update reference to latest advertisement''
               (StoreFailure OpPutHead)),
        emptyWorld\<lparr>adverts := [Cid 110 \<mapsto> testAdv]\<rparr>)"
    by (simp add: publishLocal_unfold failing_def testExtern_def testPublisher_def
          emptyWorld_def testAdv_def)
  have f: "fails (failing OpPutHead) OpPutHead"
    by (simp add: failing_def)
  have r: "headResolves emptyWorld"
    by (simp add: headResolves_def emptyWorld_def)
  from publishLocal_commit_order [OF run] f r show ?thesis
    using run by simp
qed

section \<open>Announcing\<close>

lemma publish_unfold:
  "publish x p w adv =
     (case publishLocal x p w adv of
        (Inl err, w1) \<Rightarrow> (Inl (Errorf_w ''failed to publish advertisement locally'' err), w1)
      | (Inr lnk, w1) \<Rightarrow>
          (case sender p of
             None \<Rightarrow> (Inr lnk, w1)
           | Some send \<Rightarrow>
               (Inr lnk, w1\<lparr>announces := announces w1 @ [(lnk, pubHTTPAnnounceAddrs p)]\<rparr>)))"
  by (simp add: publish_def split: prod.splits sum.splits option.splits)

text \<open>
  C8. When the local commit succeeds with a link, \<open>publish\<close> returns that link and no
  error, whatever the sender answers. Without a sender the state is the one the commit
  left: nothing is announced. With a sender one announcement of the link is made, and its
  result changes nothing.
\<close>

theorem publish_announce_swallowed:
  assumes "publishLocal x p w adv = (Inr lnk, w1)"
  shows "fst (publish x p w adv) = Inr lnk
       \<and> (sender p = None \<longrightarrow> snd (publish x p w adv) = w1)
       \<and> (\<forall>send. sender p = Some send \<longrightarrow>
            snd (publish x p w adv)
              = w1\<lparr>announces := announces w1 @ [(lnk, pubHTTPAnnounceAddrs p)]\<rparr>)"
  using assms by (simp add: publish_unfold split: option.splits)

text \<open>
  The test advertisement published from the empty store: by a publisher whose sender
  always fails, and by one without a sender.
\<close>

theorem publish_announce_swallowed_witness:
  "sender announcingPublisher = Some (\<lambda>l addrs. True)
   \<and> publish testExtern announcingPublisher emptyWorld testAdv
       = (Inr (Cid 110),
          emptyWorld\<lparr>adverts := [Cid 110 \<mapsto> testAdv], head := Some (testHead (Cid 110)),
            announces := [(Cid 110, [Multiaddr ''/dns4/a/https''])]\<rparr>)
   \<and> sender testPublisher = None
   \<and> publish testExtern testPublisher emptyWorld testAdv
       = (Inr (Cid 110),
          emptyWorld\<lparr>adverts := [Cid 110 \<mapsto> testAdv], head := Some (testHead (Cid 110))\<rparr>)"
proof -
  let ?w1 = "emptyWorld\<lparr>adverts := [Cid 110 \<mapsto> testAdv], head := Some (testHead (Cid 110))\<rparr>"
  have a: "publishLocal testExtern announcingPublisher emptyWorld testAdv = (Inr (Cid 110), ?w1)"
    by (simp add: publishLocal_unfold testExtern_def announcingPublisher_def testPublisher_def
          emptyWorld_def testAdv_def testHead_def)
  have b: "publishLocal testExtern testPublisher emptyWorld testAdv = (Inr (Cid 110), ?w1)"
    by (simp add: publishLocal_unfold testExtern_def testPublisher_def emptyWorld_def
          testAdv_def testHead_def)
  have sa: "sender announcingPublisher = Some (\<lambda>l addrs. True)"
    by (simp add: announcingPublisher_def)
  have sb: "sender testPublisher = None"
    by (simp add: testPublisher_def)
  have pa: "pubHTTPAnnounceAddrs announcingPublisher = [Multiaddr ''/dns4/a/https'']"
    by (simp add: announcingPublisher_def testPublisher_def)
  have e: "announces ?w1 = []"
    by (simp add: emptyWorld_def)
  from publish_announce_swallowed [OF a] sa pa e
  have "publish testExtern announcingPublisher emptyWorld testAdv
          = (Inr (Cid 110), ?w1\<lparr>announces := [(Cid 110, [Multiaddr ''/dns4/a/https''])]\<rparr>)"
    by (simp add: prod_eq_iff)
  moreover from publish_announce_swallowed [OF b] sb
  have "publish testExtern testPublisher emptyWorld testAdv = (Inr (Cid 110), ?w1)"
    by (simp add: prod_eq_iff)
  ultimately show ?thesis using sa sb by simp
qed

section \<open>The paths of \<open>publishAdvForIndex\<close>\<close>

lemma publish_Inr:
  assumes "publish x p w adv = (Inr l, w')"
  shows "l = advertLink x adv \<and> adverts w' l = Some adv
       \<and> (\<exists>sg. head w' = Some \<lparr>Head = l, Topic = topic p, Sig = sg\<rparr>)
       \<and> chunkLinks w' = chunkLinks w \<and> metadatas w' = metadatas w \<and> entries w' = entries w"
  using assms
  by (auto simp: publish_unfold publishLocal_unfold split: if_splits option.splits)

lemma publish_Inl:
  assumes "publish x p w adv = (Inl e, w')"
  shows "head w' = head w \<and> chunkLinks w' = chunkLinks w \<and> metadatas w' = metadatas w
       \<and> entries w' = entries w \<and> announces w' = announces w
       \<and> \<not> errorsIs e ErrAlreadyAdvertised \<and> \<not> errorsIs e ErrContextIDNotFound"
  using assms
  by (auto simp: publish_unfold publishLocal_unfold split: if_splits option.splits)

lemma signAndPublish_Inr:
  assumes "signAndPublish x p w peer addrs c cl md isRm = (Inr l, w')"
  shows "\<exists>adv sg. adverts w' l = Some adv \<and> l = advertLink x adv
           \<and> PreviousID adv = map_option Head (head w)
           \<and> Provider adv = peer_String peer \<and> Addresses adv = map addr_String addrs
           \<and> Entries adv = cl \<and> ContextID adv = c
           \<and> marshalBinary x md = Some (Metadata adv) \<and> IsRm adv = isRm
           \<and> head w' = Some \<lparr>Head = l, Topic = topic p, Sig = sg\<rparr>
           \<and> chunkLinks w' = chunkLinks w \<and> metadatas w' = metadatas w
           \<and> entries w' = entries w \<and> \<not> fails x OpHead"
  using assms
  by (auto simp: signAndPublish_def newAdvertisement_def store_Head_def fatalErr_def
        IsNotFound_def Let_def
      split: if_splits option.splits dest!: publish_Inr)

lemma signAndPublish_Inl:
  assumes "signAndPublish x p w peer addrs c cl md isRm = (Inl e, w')"
  shows "head w' = head w \<and> chunkLinks w' = chunkLinks w \<and> metadatas w' = metadatas w
       \<and> entries w' = entries w \<and> announces w' = announces w
       \<and> \<not> errorsIs e ErrAlreadyAdvertised \<and> \<not> errorsIs e ErrContextIDNotFound"
  using assms
  by (auto simp: signAndPublish_def newAdvertisement_def store_Head_def fatalErr_def
        IsNotFound_def Let_def
      split: if_splits option.splits dest!: publish_Inl)

lemma lookup_unfold:
  "ChunkLinkForProviderAndContextID x w peer c =
     (if fails x OpChunkLinkFor then (None, Some (StoreFailure OpChunkLinkFor))
      else (chunkLinks w (peer, c),
            if chunkLinks w (peer, c) = None then Some NotFound else None))"
  by (simp add: ChunkLinkForProviderAndContextID_def split: option.splits)

lemma addPath_existing:
  "addPath x w peer c md mhs (Some cl) =
     (if fails x OpMetadataFor then
        (Inl (Errorf_s ''could not get metadata for provider + context id''
                (StoreFailure OpMetadataFor)), w)
      else if Equal md (case metadatas w (peer, c) of None \<Rightarrow> zeroMetadata | Some m \<Rightarrow> m)
        then (Inl ErrAlreadyAdvertised, w)
      else if fails x OpPutMetadata then
        (Inl (Errorf_s ''failed to write provider + context id to metadata mapping''
                (StoreFailure OpPutMetadata)), w)
      else (Inr (Some cl), w\<lparr>metadatas := (metadatas w)((peer, c) \<mapsto> md)\<rparr>))"
  by (simp add: addPath_def MetadataForProviderAndContextID_def
        PutMetadataForProviderAndContextID_def fatalErr_def IsNotFound_def
      split: option.splits)

lemma addPath_new:
  "addPath x w peer c md mhs None =
     (if fails x OpPutEntries then
        (Inl (Errorf_s ''could not generate entries list'' (StoreFailure OpPutEntries)), w)
      else
        (let w1 = (case entriesLink x mhs of
                     None \<Rightarrow> w
                   | Some l \<Rightarrow> w\<lparr>entries := (entries w)(l \<mapsto> mhs)\<rparr>);
             cl = (case entriesLink x mhs of None \<Rightarrow> NoEntries | Some l \<Rightarrow> l)
         in if fails x OpPutChunkLink then
              (Inl (Errorf_s ''failed to write provider + context id to entries cid mapping''
                      (StoreFailure OpPutChunkLink)), w1)
            else if fails x OpPutMetadata then
              (Inl (Errorf_s ''failed to write provider + context id to metadata mapping''
                      (StoreFailure OpPutMetadata)),
               w1\<lparr>chunkLinks := (chunkLinks w1)((peer, c) \<mapsto> cl)\<rparr>)
            else
              (Inr (Some cl),
               w1\<lparr>chunkLinks := (chunkLinks w1)((peer, c) \<mapsto> cl),
                  metadatas := (metadatas w1)((peer, c) \<mapsto> md)\<rparr>)))"
  by (simp add: addPath_def PutEntries_def PutChunkLinkForProviderAndContextID_def
        PutMetadataForProviderAndContextID_def Let_def
      split: option.splits)

lemma removePath_unfold:
  "removePath x w peer c chunkLink =
     (if chunkLink = None then (Inl ErrContextIDNotFound, w)
      else if fails x OpDeleteChunkLink then
        (Inl (Errorf_s ''failed to delete provider + context id to entries cid mapping''
                (StoreFailure OpDeleteChunkLink)), w)
      else if fails x OpDeleteMetadata then
        (Inl (Errorf_s ''failed to delete provider + context id to metadata mapping''
                (StoreFailure OpDeleteMetadata)),
         w\<lparr>chunkLinks := (chunkLinks w)((peer, c) := None)\<rparr>)
      else
        (Inr (Some NoEntries, Default_New),
         w\<lparr>chunkLinks := (chunkLinks w)((peer, c) := None),
           metadatas := (metadatas w)((peer, c) := None)\<rparr>))"
  by (simp add: removePath_def DeleteChunkLinkForProviderAndContextID_def
        DeleteMetadataForProviderAndContextID_def split: option.splits)

lemma publishAdvForIndex_unfold:
  "publishAdvForIndex x p w peer addrs c md isRm mhs =
     (if fails x OpChunkLinkFor then
        (Inl (Errorf_s ''could not get entries cid by provider + context id''
                (StoreFailure OpChunkLinkFor)), w)
      else if \<not> isRm then
        (case addPath x w peer c md mhs (chunkLinks w (peer, c)) of
           (Inl e, w1) \<Rightarrow> (Inl e, w1)
         | (Inr chunkLink', w1) \<Rightarrow> signAndPublish x p w1 peer addrs c chunkLink' md False)
      else
        (case removePath x w peer c (chunkLinks w (peer, c)) of
           (Inl e, w1) \<Rightarrow> (Inl e, w1)
         | (Inr (chunkLink', md'), w1) \<Rightarrow>
             signAndPublish x p w1 peer addrs c chunkLink' md' True))"
  by (cases isRm; cases "chunkLinks w (peer, c)")
     (simp_all add: publishAdvForIndex_def ChunkLinkForProviderAndContextID_def fatalErr_def
        IsNotFound_def)

section \<open>The example of the spec, run\<close>

lemmas store_defs =
  ChunkLinkForProviderAndContextID_def MetadataForProviderAndContextID_def store_Head_def
  PutEntries_def PutChunkLinkForProviderAndContextID_def PutMetadataForProviderAndContextID_def
  DeleteChunkLinkForProviderAndContextID_def DeleteMetadataForProviderAndContextID_def
  PutAdvert_def PutHead_def

lemmas publisher_defs =
  Publish_def publishAdvForIndex_def addPath_def removePath_def signAndPublish_def
  newAdvertisement_def publish_def publishLocal_def fatalErr_def IsNotFound_def Equal_def
  zeroMetadata_def Default_New_def Let_def

lemmas test_defs =
  testExtern_def failing_def testPublisher_def announcingPublisher_def emptyWorld_def
  providerA_def metaX_def metaY_def ctx1_def digests12_def adv1_def adv2_def adv3_def
  testHead_def world1_def world2_def world3_def lostMetadataWorld_def sentinelWorld_def

lemma run1:
  "Publish testExtern testPublisher emptyWorld providerA ctx1 digests12 metaX
     = (Inr (Cid 110), world1)"
  by (simp add: publisher_defs store_defs test_defs numeral_2_eq_2)

lemma run2:
  "Publish testExtern testPublisher world1 providerA ctx1 digests12 metaX
     = (Inl (Errorf_w ''publishing IPNI advert'' ErrAlreadyAdvertised), world1)"
  by (simp add: publisher_defs store_defs test_defs numeral_2_eq_2)

lemma run3:
  "Publish testExtern testPublisher world1 providerA ctx1 digests12 metaY
     = (Inr (Cid 120), world2)"
  by (simp add: publisher_defs store_defs test_defs numeral_2_eq_2)

lemma run4:
  "publishAdvForIndex testExtern testPublisher world2 (ID providerA) (Addrs providerA) ctx1
     metaX True [] = (Inr (Cid 101), world3)"
  by (simp add: publisher_defs store_defs test_defs numeral_2_eq_2)

section \<open>Removal\<close>

text \<open>
  C6. A removal whose chunk-link lookup answers not-found returns
  \<open>ErrContextIDNotFound\<close> and leaves the whole state as it was: no advertisement is
  stored, no mapping and no head is written, nothing is announced.
\<close>

theorem removal_context_not_found:
  assumes "snd (ChunkLinkForProviderAndContextID x w peer contextID) = Some NotFound"
  shows "publishAdvForIndex x p w peer addrs contextID md True mhs
           = (Inl ErrContextIDNotFound, w)"
  using assms
  by (simp add: publishAdvForIndex_unfold removePath_unfold lookup_unfold split: if_splits)

text \<open>Removing \<open>ctx1\<close> from the empty store.\<close>

theorem removal_context_not_found_witness:
  "snd (ChunkLinkForProviderAndContextID testExtern emptyWorld (ID providerA) ctx1)
     = Some NotFound
   \<and> publishAdvForIndex testExtern testPublisher emptyWorld (ID providerA) (Addrs providerA)
       ctx1 metaX True [] = (Inl ErrContextIDNotFound, emptyWorld)"
proof -
  have h: "snd (ChunkLinkForProviderAndContextID testExtern emptyWorld (ID providerA) ctx1)
             = Some NotFound"
    by (simp add: ChunkLinkForProviderAndContextID_def testExtern_def emptyWorld_def)
  from removal_context_not_found [OF h] h show ?thesis by simp
qed

text \<open>
  C7. After a removal that succeeded: the pair had a chunk link; its chunk link and its
  metadata are deleted and nothing else is in the two maps changed, so that a later
  lookup that does not fail answers not-found; the advertisement stored under the link
  returned is a removal, its entries are \<open>NoEntries\<close>, its metadata is the encoding
  of the empty \<open>Default_New\<close>; and the metadata and the digests the caller supplied do
  not matter to the call.
\<close>

theorem removal_clears_associations:
  assumes "publishAdvForIndex x p w peer addrs contextID md True mhs = (Inr l, w')"
  shows "chunkLinks w (peer, contextID) \<noteq> None
       \<and> chunkLinks w' = (chunkLinks w)((peer, contextID) := None)
       \<and> metadatas w' = (metadatas w)((peer, contextID) := None)
       \<and> (\<forall>x'. \<not> fails x' OpChunkLinkFor \<longrightarrow>
             ChunkLinkForProviderAndContextID x' w' peer contextID = (None, Some NotFound))
       \<and> (\<forall>x'. \<not> fails x' OpMetadataFor \<longrightarrow>
             snd (MetadataForProviderAndContextID x' w' peer contextID) = Some NotFound)
       \<and> (\<exists>adv. adverts w' l = Some adv \<and> IsRm adv \<and> Entries adv = Some NoEntries
             \<and> marshalBinary x Default_New = Some (Metadata adv))
       \<and> publishAdvForIndex x p w peer addrs contextID md True mhs
           = publishAdvForIndex x p w peer addrs contextID md2 True mhs2"
  using assms
  by (auto simp: publishAdvForIndex_unfold removePath_unfold lookup_unfold
        MetadataForProviderAndContextID_def
      split: if_splits dest!: signAndPublish_Inr)

text \<open>The removal of \<open>ctx1\<close> after it was published twice.\<close>

theorem removal_clears_associations_witness:
  "publishAdvForIndex testExtern testPublisher world2 (ID providerA) (Addrs providerA) ctx1
     metaX True [] = (Inr (Cid 101), world3)
   \<and> chunkLinks world2 (ID providerA, ctx1) = Some (Cid 2)
   \<and> \<not> fails testExtern OpChunkLinkFor
   \<and> ChunkLinkForProviderAndContextID testExtern world3 (ID providerA) ctx1
       = (None, Some NotFound)
   \<and> \<not> fails testExtern OpMetadataFor
   \<and> snd (MetadataForProviderAndContextID testExtern world3 (ID providerA) ctx1)
       = Some NotFound
   \<and> adverts world3 (Cid 101) = Some adv3 \<and> IsRm adv3 \<and> Entries adv3 = Some NoEntries
   \<and> Metadata adv3 = []"
proof -
  have f: "\<not> fails testExtern OpChunkLinkFor" "\<not> fails testExtern OpMetadataFor"
    by (simp_all add: testExtern_def)
  have c: "chunkLinks world2 (ID providerA, ctx1) = Some (Cid 2)"
    by (simp add: test_defs)
  have a: "adverts world3 (Cid 101) = Some adv3"
    by (simp add: test_defs)
  from removal_clears_associations [OF run4] f c a show ?thesis
    using run4 by (simp add: adv3_def adv1_def)
qed

section \<open>The add path\<close>

lemma Publish_Inr_iff:
  "Publish x p w prov c ds md = (Inr l, w')
     \<longleftrightarrow> publishAdvForIndex x p w (ID prov) (Addrs prov) c md False ds = (Inr l, w')"
  by (auto simp: Publish_def split: prod.splits sum.splits)

lemma Publish_Inl_iff:
  "Publish x p w prov c ds md = (Inl e, w')
     \<longleftrightarrow> (\<exists>e'. e = Errorf_w ''publishing IPNI advert'' e'
            \<and> publishAdvForIndex x p w (ID prov) (Addrs prov) c md False ds = (Inl e', w'))"
  by (auto simp: Publish_def split: prod.splits sum.splits)

lemma add_Inr:
  assumes "publishAdvForIndex x p w peer addrs c md False ds = (Inr l, w')"
  shows "chunkLinks w' (peer, c) \<noteq> None \<and> metadatas w' (peer, c) = Some md
       \<and> (\<exists>adv. adverts w' l = Some adv \<and> PreviousID adv = map_option Head (head w)
             \<and> Entries adv = chunkLinks w' (peer, c) \<and> \<not> IsRm adv
             \<and> marshalBinary x md = Some (Metadata adv))
       \<and> map_option Head (head w') = Some l
       \<and> (\<forall>cl. chunkLinks w (peer, c) = Some cl \<longrightarrow>
             chunkLinks w' = chunkLinks w \<and> entries w' = entries w
             \<and> metadatas w' = (metadatas w)((peer, c) \<mapsto> md))"
  using assms
  by (cases "chunkLinks w (peer, c)")
     (auto simp: publishAdvForIndex_unfold addPath_existing addPath_new Let_def
      split: if_splits option.splits dest!: signAndPublish_Inr)

lemma signAndPublish_succeeds:
  "stepsSucceed x p (head w) peer addrs c cl md isRm
     \<longleftrightarrow> (\<exists>l. fst (signAndPublish x p w peer addrs c cl md isRm) = Inr l)"
  by (auto simp: stepsSucceed_def signAndPublish_def store_Head_def fatalErr_def
        IsNotFound_def Let_def publish_unfold publishLocal_unfold
      split: option.splits if_splits)

lemma run_republish_fails:
  "Publish (failing OpPutMetadata) testPublisher world1 providerA ctx1 digests12 metaY
     = (Inl (Errorf_w ''publishing IPNI advert''
               (Errorf_s ''failed to write provider + context id to metadata mapping''
                  (StoreFailure OpPutMetadata))), world1)"
  by (simp add: publisher_defs store_defs test_defs)

lemma run_sentinel:
  "publishAdvForIndex testExtern testPublisher emptyWorld (ID providerA) (Addrs providerA) ctx1
     metaX False [] = (Inr (Cid 110), sentinelWorld)"
  by (simp add: publisher_defs store_defs test_defs)

text \<open>
  C10. When a chunk link is stored for the pair, \<open>Publish\<close> does not look at the
  digests: two calls in the same state and environment that differ only in the digests
  return the same result and leave the same state. When the call succeeds, the entries
  of the advertisement are the chunk link that was stored, and neither the materialised
  entries nor the chunk links of the store have changed.
\<close>

theorem digests_ignored:
  assumes "chunkLinks w (ID prov, contextID) = Some cl"
  shows "Publish x p w prov contextID ds1 md = Publish x p w prov contextID ds2 md
       \<and> (\<forall>l w'. Publish x p w prov contextID ds1 md = (Inr l, w') \<longrightarrow>
            (\<exists>adv. adverts w' l = Some adv \<and> Entries adv = Some cl)
            \<and> entries w' = entries w \<and> chunkLinks w' = chunkLinks w)"
  using assms
  by (auto simp: Publish_def publishAdvForIndex_unfold addPath_existing
      split: if_splits prod.splits sum.splits dest!: signAndPublish_Inr)

text \<open>Republishing \<open>ctx1\<close> with \<open>metaY\<close>, once with other digests.\<close>

theorem digests_ignored_witness:
  "chunkLinks world1 (ID providerA, ctx1) = Some (Cid 2)
   \<and> Publish testExtern testPublisher world1 providerA ctx1 [''d9''] metaY
       = (Inr (Cid 120), world2)
   \<and> Publish testExtern testPublisher world1 providerA ctx1 digests12 metaY
       = (Inr (Cid 120), world2)
   \<and> adverts world2 (Cid 120) = Some adv2 \<and> Entries adv2 = Some (Cid 2)
   \<and> entries world2 = entries world1 \<and> chunkLinks world2 = chunkLinks world1"
proof -
  have c: "chunkLinks world1 (ID providerA, ctx1) = Some (Cid 2)"
    by (simp add: test_defs)
  have a: "adverts world2 (Cid 120) = Some adv2" "Entries adv2 = Some (Cid 2)"
    by (simp_all add: test_defs)
  from digests_ignored [OF c, of testExtern testPublisher digests12 metaY "[''d9'']"] run3 a c
  show ?thesis by simp
qed

text \<open>
  C5, with the proviso that the steps of the call succeed. Let the pair have a stored
  chunk link and stored metadata that differs from the metadata supplied. Then
  \<open>Publish\<close> never returns \<open>ErrAlreadyAdvertised\<close>; it succeeds when the three store
  accesses of the add path do not fail and the steps from the encoding of the metadata to
  the store of the head succeed; and whenever it succeeds, the advertisement stored under
  the link returned has the stored chunk link as its entries, is not a removal and carries
  the encoding of the new metadata, the metadata of the pair is overwritten with the new
  value, and chunk links and materialised entries are untouched.
\<close>

theorem metadata_only_republish:
  assumes "chunkLinks w (ID prov, contextID) = Some cl"
    and "metadatas w (ID prov, contextID) = Some m0"
    and "\<not> Equal md m0"
    and "Publish x p w prov contextID ds md = (r, w')"
  shows "(\<forall>l. r = Inr l \<longrightarrow>
            (\<exists>adv. adverts w' l = Some adv \<and> Entries adv = Some cl \<and> \<not> IsRm adv
               \<and> marshalBinary x md = Some (Metadata adv))
            \<and> metadatas w' = (metadatas w)((ID prov, contextID) \<mapsto> md)
            \<and> chunkLinks w' = chunkLinks w \<and> entries w' = entries w)
       \<and> (\<forall>e. r = Inl e \<longrightarrow> \<not> errorsIs e ErrAlreadyAdvertised)
       \<and> (\<not> fails x OpChunkLinkFor \<and> \<not> fails x OpMetadataFor \<and> \<not> fails x OpPutMetadata
            \<and> stepsSucceed x p (head w) (ID prov) (Addrs prov) contextID (Some cl) md False
          \<longrightarrow> (\<exists>l. r = Inr l))"
proof (intro conjI allI impI)
  fix l assume "r = Inr l"
  with assms(4) have "publishAdvForIndex x p w (ID prov) (Addrs prov) contextID md False ds
                        = (Inr l, w')"
    by (simp add: Publish_Inr_iff)
  from add_Inr [OF this] assms(1)
  show "\<exists>adv. adverts w' l = Some adv \<and> Entries adv = Some cl \<and> \<not> IsRm adv
               \<and> marshalBinary x md = Some (Metadata adv)"
    and "metadatas w' = (metadatas w)((ID prov, contextID) \<mapsto> md)"
    and "chunkLinks w' = chunkLinks w" and "entries w' = entries w"
    by auto
next
  fix e assume "r = Inl e"
  with assms(4) obtain e' where e: "e = Errorf_w ''publishing IPNI advert'' e'"
    and run: "publishAdvForIndex x p w (ID prov) (Addrs prov) contextID md False ds = (Inl e', w')"
    by (auto simp: Publish_Inl_iff)
  from run assms(1,2,3) have "\<not> errorsIs e' ErrAlreadyAdvertised"
    by (auto simp: publishAdvForIndex_unfold addPath_existing
        split: if_splits dest!: signAndPublish_Inl)
  with e show "\<not> errorsIs e ErrAlreadyAdvertised" by simp
next
  assume ok: "\<not> fails x OpChunkLinkFor \<and> \<not> fails x OpMetadataFor \<and> \<not> fails x OpPutMetadata
            \<and> stepsSucceed x p (head w) (ID prov) (Addrs prov) contextID (Some cl) md False"
  let ?w1 = "w\<lparr>metadatas := (metadatas w)((ID prov, contextID) \<mapsto> md)\<rparr>"
  from ok have "stepsSucceed x p (head ?w1) (ID prov) (Addrs prov) contextID (Some cl) md False"
    by simp
  then obtain l where
    "fst (signAndPublish x p ?w1 (ID prov) (Addrs prov) contextID (Some cl) md False) = Inr l"
    unfolding signAndPublish_succeeds by blast
  with ok assms show "\<exists>l. r = Inr l"
    by (auto simp: Publish_def publishAdvForIndex_unfold addPath_existing
        split: prod.splits sum.splits)
qed

text \<open>
  Success is not unconditional: with the write of the metadata failing, the same call
  returns the store failure and the stored metadata stays \<open>metaX\<close>.
\<close>

theorem metadata_only_republish_counterexample:
  "chunkLinks world1 (ID providerA, ctx1) = Some (Cid 2)
   \<and> metadatas world1 (ID providerA, ctx1) = Some metaX \<and> \<not> Equal metaY metaX
   \<and> Publish (failing OpPutMetadata) testPublisher world1 providerA ctx1 digests12 metaY
       = (Inl (Errorf_w ''publishing IPNI advert''
                 (Errorf_s ''failed to write provider + context id to metadata mapping''
                    (StoreFailure OpPutMetadata))), world1)
   \<and> metadatas (snd (Publish (failing OpPutMetadata) testPublisher world1 providerA ctx1
                       digests12 metaY)) (ID providerA, ctx1) = Some metaX"
  by (simp add: publisher_defs store_defs test_defs)

text \<open>The republish of \<open>ctx1\<close> with \<open>metaY\<close>, succeeding and failing.\<close>

theorem metadata_only_republish_witness:
  "chunkLinks world1 (ID providerA, ctx1) = Some (Cid 2)
   \<and> metadatas world1 (ID providerA, ctx1) = Some metaX \<and> \<not> Equal metaY metaX
   \<and> \<not> fails testExtern OpChunkLinkFor \<and> \<not> fails testExtern OpMetadataFor
   \<and> \<not> fails testExtern OpPutMetadata
   \<and> stepsSucceed testExtern testPublisher (head world1) (ID providerA) (Addrs providerA) ctx1
       (Some (Cid 2)) metaY False
   \<and> Publish testExtern testPublisher world1 providerA ctx1 digests12 metaY
       = (Inr (Cid 120), world2)
   \<and> adverts world2 (Cid 120) = Some adv2 \<and> Entries adv2 = Some (Cid 2) \<and> \<not> IsRm adv2
   \<and> metadatas world2 (ID providerA, ctx1) = Some metaY
   \<and> fst (Publish (failing OpPutMetadata) testPublisher world1 providerA ctx1 digests12 metaY)
       = Inl (Errorf_w ''publishing IPNI advert''
               (Errorf_s ''failed to write provider + context id to metadata mapping''
                  (StoreFailure OpPutMetadata)))
   \<and> \<not> errorsIs (Errorf_w ''publishing IPNI advert''
                    (Errorf_s ''failed to write provider + context id to metadata mapping''
                       (StoreFailure OpPutMetadata))) ErrAlreadyAdvertised"
proof -
  have c: "chunkLinks world1 (ID providerA, ctx1) = Some (Cid 2)"
    and m: "metadatas world1 (ID providerA, ctx1) = Some metaX"
    and n: "\<not> Equal metaY metaX"
    by (simp_all add: test_defs Equal_def)
  have f: "\<not> fails testExtern OpChunkLinkFor" "\<not> fails testExtern OpMetadataFor"
    "\<not> fails testExtern OpPutMetadata"
    by (simp_all add: testExtern_def)
  have s: "stepsSucceed testExtern testPublisher (head world1) (ID providerA) (Addrs providerA)
             ctx1 (Some (Cid 2)) metaY False"
    by (simp add: stepsSucceed_def newAdvertisement_def test_defs)
  have a: "adverts world2 (Cid 120) = Some adv2" "Entries adv2 = Some (Cid 2)" "\<not> IsRm adv2"
    "metadatas world2 (ID providerA, ctx1) = Some metaY"
    by (simp_all add: test_defs)
  from metadata_only_republish [OF c m n run3] metadata_only_republish [OF c m n run_republish_fails]
  show ?thesis using c m n f s a run3 run_republish_fails by simp
qed

text \<open>
  C3, with the proviso that the two lookups of the second call do not fail. If
  \<open>Publish\<close> succeeds, then \<open>Publish\<close> with the same arguments on the state it left,
  in any environment whose chunk-link and metadata lookups do not fail, returns an error
  that is \<open>ErrAlreadyAdvertised\<close> (wrapped by \<open>Publish\<close>), returns no link, and leaves the
  whole state, the head included, as it was.
\<close>

theorem republish_already_advertised:
  assumes "Publish x1 p w prov contextID ds md = (Inr l, w1)"
    and "\<not> fails x2 OpChunkLinkFor" and "\<not> fails x2 OpMetadataFor"
  shows "Publish x2 p w1 prov contextID ds md
           = (Inl (Errorf_w ''publishing IPNI advert'' ErrAlreadyAdvertised), w1)
       \<and> errorsIs (Errorf_w ''publishing IPNI advert'' ErrAlreadyAdvertised) ErrAlreadyAdvertised"
proof -
  from assms(1) have "publishAdvForIndex x1 p w (ID prov) (Addrs prov) contextID md False ds
                        = (Inr l, w1)"
    by (simp add: Publish_Inr_iff)
  from add_Inr [OF this]
  obtain cl where cl: "chunkLinks w1 (ID prov, contextID) = Some cl"
    and md: "metadatas w1 (ID prov, contextID) = Some md"
    by auto
  from cl md assms(2,3) show ?thesis
    by (simp add: Publish_def publishAdvForIndex_unfold addPath_existing Equal_def)
qed

text \<open>
  Without the proviso the second call can return another error: with the chunk-link lookup
  failing it returns the store failure, which is not \<open>ErrAlreadyAdvertised\<close>.
\<close>

theorem republish_lookup_failure_counterexample:
  "Publish testExtern testPublisher emptyWorld providerA ctx1 digests12 metaX
     = (Inr (Cid 110), world1)
   \<and> Publish (failing OpChunkLinkFor) testPublisher world1 providerA ctx1 digests12 metaX
       = (Inl (Errorf_w ''publishing IPNI advert''
                 (Errorf_s ''could not get entries cid by provider + context id''
                    (StoreFailure OpChunkLinkFor))), world1)
   \<and> \<not> errorsIs (Errorf_w ''publishing IPNI advert''
                    (Errorf_s ''could not get entries cid by provider + context id''
                       (StoreFailure OpChunkLinkFor))) ErrAlreadyAdvertised"
  using run1 by (simp add: Publish_def publishAdvForIndex_unfold failing_def)

text \<open>The first two calls of the example.\<close>

theorem republish_already_advertised_witness:
  "Publish testExtern testPublisher emptyWorld providerA ctx1 digests12 metaX
     = (Inr (Cid 110), world1)
   \<and> \<not> fails testExtern OpChunkLinkFor \<and> \<not> fails testExtern OpMetadataFor
   \<and> Publish testExtern testPublisher world1 providerA ctx1 digests12 metaX
       = (Inl (Errorf_w ''publishing IPNI advert'' ErrAlreadyAdvertised), world1)"
proof -
  have f: "\<not> fails testExtern OpChunkLinkFor" "\<not> fails testExtern OpMetadataFor"
    by (simp_all add: testExtern_def)
  from republish_already_advertised [OF run1 f] run1 f show ?thesis by simp
qed

text \<open>
  C9. On the add path with no chunk link stored for the pair, let the materialisation of
  the digests succeed and yield no link. Then nothing is materialised; the chunk link
  written for the pair is \<open>NoEntries\<close>, whatever happens later in the call; when the call
  succeeds the entries of the advertisement stored are \<open>NoEntries\<close>; and the missing link
  is no error: the call succeeds when the two writes of the add path do not fail and the
  steps from the encoding of the metadata to the store of the head succeed.
\<close>

theorem empty_materialisation_uses_sentinel:
  assumes "ChunkLinkForProviderAndContextID x w peer contextID = (None, Some NotFound)"
    and "PutEntries x w mhs = (Inr None, w1)"
    and "publishAdvForIndex x p w peer addrs contextID md False mhs = (r, w')"
  shows "(\<not> fails x OpPutChunkLink \<longrightarrow> chunkLinks w' (peer, contextID) = Some NoEntries)
       \<and> (\<forall>l. r = Inr l \<longrightarrow> (\<exists>adv. adverts w' l = Some adv \<and> Entries adv = Some NoEntries))
       \<and> entries w' = entries w
       \<and> (\<not> fails x OpPutChunkLink \<and> \<not> fails x OpPutMetadata
            \<and> stepsSucceed x p (head w) peer addrs contextID (Some NoEntries) md False
          \<longrightarrow> (\<exists>l. r = Inr l))"
proof -
  from assms(1) have look: "\<not> fails x OpChunkLinkFor" "chunkLinks w (peer, contextID) = None"
    by (auto simp: lookup_unfold split: if_splits)
  from assms(2) have mat: "\<not> fails x OpPutEntries" "entriesLink x mhs = None"
    by (auto simp: PutEntries_def split: if_splits option.splits)
  let ?w2 = "w\<lparr>chunkLinks := (chunkLinks w)((peer, contextID) \<mapsto> NoEntries),
                metadatas := (metadatas w)((peer, contextID) \<mapsto> md)\<rparr>"
  have a: "\<not> fails x OpPutChunkLink \<longrightarrow> chunkLinks w' (peer, contextID) = Some NoEntries"
    using assms(3) look mat
    by (cases r)
       (auto simp: publishAdvForIndex_unfold addPath_new
        split: if_splits dest!: signAndPublish_Inr signAndPublish_Inl)
  have b: "\<forall>l. r = Inr l \<longrightarrow> (\<exists>adv. adverts w' l = Some adv \<and> Entries adv = Some NoEntries)"
    using assms(3) look mat
    by (auto simp: publishAdvForIndex_unfold addPath_new
        split: if_splits dest!: signAndPublish_Inr)
  have c: "entries w' = entries w"
    using assms(3) look mat
    by (cases r)
       (auto simp: publishAdvForIndex_unfold addPath_new
        split: if_splits dest!: signAndPublish_Inr signAndPublish_Inl)
  have d: "\<exists>l. r = Inr l"
    if ok: "\<not> fails x OpPutChunkLink \<and> \<not> fails x OpPutMetadata
            \<and> stepsSucceed x p (head w) peer addrs contextID (Some NoEntries) md False"
  proof -
    from ok have "stepsSucceed x p (head ?w2) peer addrs contextID (Some NoEntries) md False"
      by simp
    then obtain l where
      "fst (signAndPublish x p ?w2 peer addrs contextID (Some NoEntries) md False) = Inr l"
      unfolding signAndPublish_succeeds by blast
    with ok assms(3) look mat show ?thesis
      by (auto simp: publishAdvForIndex_unfold addPath_new)
  qed
  from a b c d show ?thesis by blast
qed

text \<open>A first publish of \<open>ctx1\<close> with no digest.\<close>

theorem empty_materialisation_uses_sentinel_witness:
  "ChunkLinkForProviderAndContextID testExtern emptyWorld (ID providerA) ctx1
     = (None, Some NotFound)
   \<and> PutEntries testExtern emptyWorld [] = (Inr None, emptyWorld)
   \<and> publishAdvForIndex testExtern testPublisher emptyWorld (ID providerA) (Addrs providerA)
       ctx1 metaX False [] = (Inr (Cid 110), sentinelWorld)
   \<and> \<not> fails testExtern OpPutChunkLink \<and> \<not> fails testExtern OpPutMetadata
   \<and> stepsSucceed testExtern testPublisher (head emptyWorld) (ID providerA) (Addrs providerA)
       ctx1 (Some NoEntries) metaX False
   \<and> chunkLinks sentinelWorld (ID providerA, ctx1) = Some NoEntries
   \<and> adverts sentinelWorld (Cid 110) = Some (adv1\<lparr>Entries := Some NoEntries\<rparr>)
   \<and> entries sentinelWorld = entries emptyWorld"
proof -
  have l: "ChunkLinkForProviderAndContextID testExtern emptyWorld (ID providerA) ctx1
             = (None, Some NotFound)"
    by (simp add: store_defs test_defs)
  have e: "PutEntries testExtern emptyWorld [] = (Inr None, emptyWorld)"
    by (simp add: store_defs test_defs)
  have f: "\<not> fails testExtern OpPutChunkLink" "\<not> fails testExtern OpPutMetadata"
    by (simp_all add: testExtern_def)
  have s: "stepsSucceed testExtern testPublisher (head emptyWorld) (ID providerA)
             (Addrs providerA) ctx1 (Some NoEntries) metaX False"
    by (simp add: stepsSucceed_def newAdvertisement_def test_defs)
  have a: "adverts sentinelWorld (Cid 110) = Some (adv1\<lparr>Entries := Some NoEntries\<rparr>)"
    by (simp add: test_defs)
  from empty_materialisation_uses_sentinel [OF l e run_sentinel] f s a
  show ?thesis using l e run_sentinel by simp
qed

section \<open>Missing metadata under an existing chunk link\<close>

text \<open>
  When the chunk link exists and the metadata lookup answers not-found, the comparison of
  line 131 is made against the zero value the lookup returned. The call then returns
  \<open>ErrAlreadyAdvertised\<close> exactly when the metadata supplied has no protocol.
\<close>

lemma missing_metadata_proceeds_unless_empty:
  assumes "chunkLinks w (ID prov, contextID) = Some cl"
    and "snd (MetadataForProviderAndContextID x w (ID prov) contextID) = Some NotFound"
    and "Publish x p w prov contextID ds md = (Inl e, w')"
  shows "errorsIs e ErrAlreadyAdvertised \<longleftrightarrow> \<not> fails x OpChunkLinkFor \<and> protocols md = []"
proof -
  from assms(2) have look: "\<not> fails x OpMetadataFor" "metadatas w (ID prov, contextID) = None"
    by (auto simp: MetadataForProviderAndContextID_def split: if_splits option.splits)
  from assms(3) obtain e' where e: "e = Errorf_w ''publishing IPNI advert'' e'"
    and run: "publishAdvForIndex x p w (ID prov) (Addrs prov) contextID md False ds = (Inl e', w')"
    by (auto simp: Publish_Inl_iff)
  from run assms(1) look
  have "errorsIs e' ErrAlreadyAdvertised \<longleftrightarrow> \<not> fails x OpChunkLinkFor \<and> protocols md = []"
    by (auto simp: publishAdvForIndex_unfold addPath_existing Equal_def zeroMetadata_def
        split: if_splits dest!: signAndPublish_Inl)
  with e show ?thesis by simp
qed

text \<open>
  C4. The claim is that \<open>ErrAlreadyAdvertised\<close> is never returned when the lookup of the
  prior metadata answered not-found. It fails for metadata without protocols: a first
  publish whose metadata write fails leaves the chunk link without metadata and advertises
  nothing; on that state the metadata lookup answers not-found, and \<open>Publish\<close> with the
  empty metadata returns \<open>ErrAlreadyAdvertised\<close>, again advertising nothing.
\<close>

theorem empty_metadata_after_lost_metadata:
  "Publish (failing OpPutMetadata) testPublisher emptyWorld providerA ctx1 digests12 metaX
     = (Inl (Errorf_w ''publishing IPNI advert''
          (Errorf_s ''failed to write provider + context id to metadata mapping''
             (StoreFailure OpPutMetadata))), lostMetadataWorld)
   \<and> chunkLinks lostMetadataWorld (ID providerA, ctx1) = Some (Cid 2)
   \<and> MetadataForProviderAndContextID testExtern lostMetadataWorld (ID providerA) ctx1
       = (zeroMetadata, Some NotFound)
   \<and> adverts lostMetadataWorld = Map.empty
   \<and> Publish testExtern testPublisher lostMetadataWorld providerA ctx1 digests12 Default_New
       = (Inl (Errorf_w ''publishing IPNI advert'' ErrAlreadyAdvertised), lostMetadataWorld)"
  by (simp add: publisher_defs store_defs test_defs numeral_2_eq_2)

section \<open>Chain linkage\<close>

lemma publishAdvForIndex_Inr:
  assumes "publishAdvForIndex x p w peer addrs c md isRm ds = (Inr l, w')"
  shows "(\<exists>adv. adverts w' l = Some adv \<and> PreviousID adv = map_option Head (head w))
       \<and> map_option Head (head w') = Some l \<and> \<not> fails x OpHead"
  using assms
  by (cases "chunkLinks w (peer, c)")
     (auto simp: publishAdvForIndex_unfold addPath_existing addPath_new removePath_unfold Let_def
      split: if_splits option.splits dest!: signAndPublish_Inr)

lemma publishAdvForIndex_Inl:
  assumes "publishAdvForIndex x p w peer addrs c md isRm ds = (Inl e, w')"
  shows "head w' = head w"
  using assms
  by (cases "chunkLinks w (peer, c)")
     (auto simp: publishAdvForIndex_unfold addPath_existing addPath_new removePath_unfold Let_def
      split: if_splits option.splits dest!: signAndPublish_Inl)

lemma perform_Inr:
  assumes "perform p w c = (Inr l, w')"
  shows "(\<exists>adv. adverts w' l = Some adv \<and> PreviousID adv = map_option Head (head w))
       \<and> map_option Head (head w') = Some l \<and> \<not> fails (c_extern c) OpHead"
  using assms
  by (auto simp: perform_def Publish_Inr_iff split: if_splits dest!: publishAdvForIndex_Inr)

lemma perform_Inl:
  assumes "perform p w c = (Inl e, w')"
  shows "head w' = head w"
  using assms
  by (auto simp: perform_def Publish_Inl_iff split: if_splits dest!: publishAdvForIndex_Inl)

lemma performAll_chained:
  "chained (map_option Head (head w)) (performAll p w cs)"
proof (induction cs arbitrary: w)
  case Nil
  show ?case by simp
next
  case (Cons c cs)
  obtain r w1 where run: "perform p w c = (r, w1)"
    by (cases "perform p w c")
  show ?case
  proof (cases r)
    case (Inl e)
    with run have "head w1 = head w" by (simp add: perform_Inl)
    with Cons.IH [of w1] run Inl show ?thesis by simp
  next
    case (Inr l)
    with run perform_Inr [of p w c l w1]
    have "\<exists>adv. adverts w1 l = Some adv \<and> PreviousID adv = map_option Head (head w)"
      and "map_option Head (head w1) = Some l"
      by simp_all
    with Cons.IH [of w1] run Inr show ?thesis by auto
  qed
qed

lemma performAll_testCalls:
  "performAll testPublisher emptyWorld testCalls
     = [(Cid 110, world1), (Cid 120, world2), (Cid 101, world3)]"
  by (simp add: testCalls_def testCall_def perform_def run1 run2 run3 run4)

text \<open>
  C1. For every list of calls run in sequence from any state, the calls that succeed form
  a chain: the advertisement stored by each has as its previous link the link the
  successful call before it returned, and the first has the link of the head the sequence
  started with, none when there was no head. For a single successful call: the previous
  link of the advertisement stored is the link of the head the lookup returned, it is
  absent exactly when the lookup answered not-found, and the head after the call is the
  link returned.
\<close>

theorem chain_linkage:
  "chained (map_option Head (head w)) (performAll p w cs)
   \<and> (\<forall>c l w'. perform p w c = (Inr l, w') \<longrightarrow>
        (\<exists>adv. adverts w' l = Some adv
           \<and> PreviousID adv = map_option Head (fst (store_Head (c_extern c) w))
           \<and> (PreviousID adv = None \<longleftrightarrow> snd (store_Head (c_extern c) w) = Some NotFound))
        \<and> map_option Head (head w') = Some l)"
proof (intro conjI allI impI)
  show "chained (map_option Head (head w)) (performAll p w cs)"
    by (rule performAll_chained)
next
  fix c l w' assume run: "perform p w c = (Inr l, w')"
  from perform_Inr [OF run]
  show "\<exists>adv. adverts w' l = Some adv
           \<and> PreviousID adv = map_option Head (fst (store_Head (c_extern c) w))
           \<and> (PreviousID adv = None \<longleftrightarrow> snd (store_Head (c_extern c) w) = Some NotFound)"
    by (auto simp: store_Head_def split: option.splits)
  from perform_Inr [OF run] show "map_option Head (head w') = Some l" by simp
qed

text \<open>The example of the spec: three advertisements, the first without a previous link.\<close>

theorem chain_linkage_witness:
  "performAll testPublisher emptyWorld testCalls
     = [(Cid 110, world1), (Cid 120, world2), (Cid 101, world3)]
   \<and> head emptyWorld = None
   \<and> chained None [(Cid 110, world1), (Cid 120, world2), (Cid 101, world3)]
   \<and> perform testPublisher emptyWorld (testCall False digests12 metaX) = (Inr (Cid 110), world1)
   \<and> snd (store_Head testExtern emptyWorld) = Some NotFound
   \<and> adverts world1 (Cid 110) = Some adv1 \<and> PreviousID adv1 = None
   \<and> map_option Head (head world1) = Some (Cid 110)
   \<and> adverts world2 (Cid 120) = Some adv2 \<and> PreviousID adv2 = Some (Cid 110)
   \<and> adverts world3 (Cid 101) = Some adv3 \<and> PreviousID adv3 = Some (Cid 120)"
proof -
  have p: "perform testPublisher emptyWorld (testCall False digests12 metaX)
             = (Inr (Cid 110), world1)"
    by (simp add: perform_def testCall_def run1)
  have h: "head emptyWorld = None" "snd (store_Head testExtern emptyWorld) = Some NotFound"
    by (simp_all add: store_defs test_defs)
  have a: "adverts world1 (Cid 110) = Some adv1" "PreviousID adv1 = None"
    "adverts world2 (Cid 120) = Some adv2" "PreviousID adv2 = Some (Cid 110)"
    "adverts world3 (Cid 101) = Some adv3" "PreviousID adv3 = Some (Cid 120)"
    by (simp_all add: test_defs)
  from chain_linkage [of emptyWorld testPublisher testCalls] p h a
  show ?thesis by (simp add: performAll_testCalls)
qed

section \<open>The head resolves in every reachable state\<close>

text \<open>
  Every call, successful or not, keeps the head resolving; so it resolves in every state
  reached from the empty store.
\<close>

lemma signAndPublish_headResolves:
  "headResolves w \<Longrightarrow> headResolves (snd (signAndPublish x p w peer addrs c cl md isRm))"
  by (auto simp: signAndPublish_def store_Head_def fatalErr_def IsNotFound_def Let_def
        publish_unfold publishLocal_unfold headResolves_def
      split: option.splits if_splits)

lemma headResolves_cong:
  "head w' = head w \<Longrightarrow> adverts w' = adverts w \<Longrightarrow> headResolves w' = headResolves w"
  by (simp add: headResolves_def split: option.splits)

lemma addPath_keeps_chain:
  "head (snd (addPath x w peer c md mhs cl)) = head w
   \<and> adverts (snd (addPath x w peer c md mhs cl)) = adverts w"
  by (cases cl) (auto simp: addPath_existing addPath_new Let_def split: option.splits)

lemma removePath_keeps_chain:
  "head (snd (removePath x w peer c cl)) = head w
   \<and> adverts (snd (removePath x w peer c cl)) = adverts w"
  by (auto simp: removePath_unfold)

lemma publishAdvForIndex_headResolves:
  assumes "headResolves w"
  shows "headResolves (snd (publishAdvForIndex x p w peer addrs c md isRm mhs))"
proof (cases isRm)
  case False
  obtain r w1 where a: "addPath x w peer c md mhs (chunkLinks w (peer, c)) = (r, w1)"
    by (cases "addPath x w peer c md mhs (chunkLinks w (peer, c))")
  with addPath_keeps_chain [of x w peer c md mhs "chunkLinks w (peer, c)"] assms
  have "headResolves w1" by (simp add: headResolves_cong [of w1 w])
  with a assms False show ?thesis
    by (cases r) (auto simp: publishAdvForIndex_unfold signAndPublish_headResolves)
next
  case True
  obtain r w1 where a: "removePath x w peer c (chunkLinks w (peer, c)) = (r, w1)"
    by (cases "removePath x w peer c (chunkLinks w (peer, c))")
  with removePath_keeps_chain [of x w peer c "chunkLinks w (peer, c)"] assms
  have "headResolves w1" by (simp add: headResolves_cong [of w1 w])
  with a assms True show ?thesis
    by (cases r) (auto simp: publishAdvForIndex_unfold signAndPublish_headResolves)
qed

lemma perform_headResolves:
  assumes "headResolves w"
  shows "headResolves (snd (perform p w c))"
proof (cases "c_isRm c")
  case True
  with publishAdvForIndex_headResolves [OF assms] show ?thesis
    by (simp add: perform_def)
next
  case False
  have "snd (Publish x p w prov cid ds m)
          = snd (publishAdvForIndex x p w (ID prov) (Addrs prov) cid m False ds)"
    for x prov cid ds m
    by (simp add: Publish_def split: prod.splits sum.splits)
  with False publishAdvForIndex_headResolves [OF assms] show ?thesis
    by (simp add: perform_def)
qed

lemma stateAfter_headResolves:
  "headResolves w \<Longrightarrow> headResolves (stateAfter p w cs)"
  by (induction cs arbitrary: w) (simp_all add: perform_headResolves)

lemma reachable_headResolves:
  "headResolves (stateAfter p emptyWorld cs)"
  by (rule stateAfter_headResolves) (simp add: headResolves_def emptyWorld_def)

end
